theory Spec2Isabelle
  imports Main
begin

section \<open>Values and strings of the runtime\<close>

text \<open>
  The chat client of \<^verbatim>\<open>src/App.tsx\<close> keeps its session in React state and talks to the
  room service through WebSocket objects. This theory embeds its handlers
  (\<^verbatim>\<open>connectToWebSocket\<close> with the four socket callbacks, \<^verbatim>\<open>sendMessage\<close>,
  \<^verbatim>\<open>leaveRoom\<close>) as functions on an explicit state.

  Strings are lists of code units; the embedding covers the code units below 256, which
  is what \<^typ>\<open>char\<close> holds. \<^verbatim>\<open>String.prototype.trim\<close> strips white space and line
  terminators from both ends; below 256 these are TAB, LF, VT, FF, CR, SPACE and NBSP.
\<close>

definition is_ws :: "char \<Rightarrow> bool" where
  "is_ws c = (c \<in> {CHR 0x09, CHR 0x0A, CHR 0x0B, CHR 0x0C, CHR 0x0D, CHR 0x20, CHR 0xA0})"

definition trim :: "string \<Rightarrow> string" where
  "trim s = rev (dropWhile is_ws (rev (dropWhile is_ws s)))"

text \<open>
  An inbound frame is handed to \<^verbatim>\<open>JSON.parse\<close>, so the handler works on an untyped
  value. \<open>JUndefined\<close> is never the result of a parse, but it is what reading a missing
  property gives. Numbers are never inspected by the program.
\<close>

datatype jsval =
    JUndefined
  | JNull
  | JBool bool
  | JNum int
  | JStr string
  | JArr "jsval list"
  | JObj "(string \<times> jsval) list"

text \<open>
  \<^verbatim>\<open>JSON.parse(event.data)\<close> either throws a SyntaxError or returns a value. The parser
  is the platform's, so the handler is modelled on its outcome.
\<close>

datatype parsed = SyntaxError | Parsed jsval

text \<open>
  Reading a property \<^verbatim>\<open>v.k\<close>. On \<^verbatim>\<open>null\<close> and \<^verbatim>\<open>undefined\<close> the read throws a TypeError
  (\<open>None\<close>). On an object it gives the property or \<^verbatim>\<open>undefined\<close>. The program reads only
  \<^verbatim>\<open>type\<close>, \<^verbatim>\<open>payload\<close>, \<^verbatim>\<open>sender\<close>, \<^verbatim>\<open>text\<close> and \<^verbatim>\<open>message\<close>; none of these exists on a
  boolean, a number, a string or an array, where the read gives \<^verbatim>\<open>undefined\<close>.
\<close>

fun get_prop :: "jsval \<Rightarrow> string \<Rightarrow> jsval option" where
  "get_prop JUndefined k = None"
| "get_prop JNull k = None"
| "get_prop (JObj kvs) k = Some (case map_of kvs k of None \<Rightarrow> JUndefined | Some v \<Rightarrow> v)"
| "get_prop v k = Some JUndefined"

section \<open>The session state\<close>

datatype status = Disconnected | Connecting | Connected

text \<open>One element of \<^verbatim>\<open>messages\<close>: \<^verbatim>\<open>{sender, text, timestamp}\<close>.\<close>

record chat_entry =
  sender :: jsval
  text' :: jsval
  timestamp :: nat

text \<open>
  The objects the program passes to \<^verbatim>\<open>JSON.stringify\<close> before \<^verbatim>\<open>ws.send\<close>:
  \<^verbatim>\<open>{type: 'join', payload: {roomId, userName}}\<close>,
  \<^verbatim>\<open>{type: 'chat_message', payload: {roomId, sender, text}}\<close> and
  \<^verbatim>\<open>{type: 'leave', payload: {roomId, userName}}\<close>, fields in this order.
\<close>

datatype frame =
    Join string string
  | ChatMessage string string string
  | Leave string string

text \<open>
  The browser's WebSocket object, as far as the program uses it. Its \<^verbatim>\<open>readyState\<close> is
  the standard's; the two strings are the values of \<^verbatim>\<open>roomCode\<close> and \<^verbatim>\<open>name\<close> that the
  \<^verbatim>\<open>onopen\<close> closure captured when \<^verbatim>\<open>connectToWebSocket\<close> created the socket.
\<close>

datatype ready_state = CONNECTING | OPEN | CLOSING | CLOSED

record websocket =
  readyState :: ready_state
  captured_roomCode :: string
  captured_name :: string

text \<open>
  What the program did to the network: a socket constructed, a frame transmitted on a
  socket, the closing of a socket started. Sockets are numbered in order of creation.
\<close>

datatype effect = Created nat | Sent nat frame | CloseStarted nat

text \<open>
  The component's state: the \<^verbatim>\<open>useState\<close> cells under their own names, \<^verbatim>\<open>wsRef.current\<close>,
  every socket constructed so far, and the log of effects. \<^verbatim>\<open>error\<close>, \<^verbatim>\<open>participants\<close> and
  the fields of a message are typed in the source, but they are assigned from the parsed
  frame unchecked, so they hold whatever value arrived; \<^verbatim>\<open>null\<close> is \<open>JNull\<close> and the
  empty array is \<open>JArr []\<close>.
\<close>

record app =
  name :: string
  messages :: "chat_entry list"
  roomCode :: string
  connectionStatus :: status
  error :: jsval
  currentMessage :: string
  participants :: jsval
  wsRef :: "nat option"
  sockets :: "websocket list"
  wire :: "effect list"

definition initial :: app where
  "initial = \<lparr> name = [], messages = [], roomCode = [], connectionStatus = Disconnected,
     error = JNull, currentMessage = [], participants = JArr [], wsRef = None,
     sockets = [], wire = [] \<rparr>"

section \<open>The socket's own behaviour\<close>

text \<open>
  Exceptions that leave a handler uncaught. \<^verbatim>\<open>send\<close> on a socket that is still
  connecting throws InvalidStateError. The updater passed to \<^verbatim>\<open>setMessages\<close> reads
  \<^verbatim>\<open>parsedMessage.payload.sender\<close> when React runs it, which is outside the handler's
  \<^verbatim>\<open>try\<close> block, so a TypeError there is not caught by the handler.
\<close>

datatype thrown = InvalidStateError | UpdaterTypeError

definition ready :: "app \<Rightarrow> nat \<Rightarrow> ready_state option" where
  "ready s i = (if i < length (sockets s) then Some (readyState (sockets s ! i)) else None)"

definition set_ready :: "nat \<Rightarrow> ready_state \<Rightarrow> app \<Rightarrow> app" where
  "set_ready i r s =
     (if i < length (sockets s)
      then s\<lparr>sockets := (sockets s)[i := (sockets s ! i)\<lparr>readyState := r\<rparr>]\<rparr>
      else s)"

text \<open>
  \<^verbatim>\<open>ws.send(data)\<close>: throws while the socket is connecting, transmits while it is open, and
  discards the data silently once it is closing or closed.
\<close>

definition ws_send :: "nat \<Rightarrow> frame \<Rightarrow> app \<Rightarrow> thrown + app" where
  "ws_send i f s =
     (case ready s i of
        Some CONNECTING \<Rightarrow> Inl InvalidStateError
      | Some OPEN \<Rightarrow> Inr (s\<lparr>wire := wire s @ [Sent i f]\<rparr>)
      | _ \<Rightarrow> Inr s)"

text \<open>
  \<^verbatim>\<open>ws.close()\<close>: starts the closing of a connecting or open socket, and does nothing on
  one that is closing or closed.
\<close>

definition ws_close :: "nat \<Rightarrow> app \<Rightarrow> app" where
  "ws_close i s =
     (if ready s i = Some CONNECTING \<or> ready s i = Some OPEN
      then (set_ready i CLOSING s)\<lparr>wire := wire s @ [CloseStarted i]\<rparr>
      else s)"

section \<open>The handlers\<close>

text \<open>
  \<^verbatim>\<open>connectToWebSocket\<close>. The argument says whether \<^verbatim>\<open>new WebSocket(url)\<close> returned or
  threw; the \<^verbatim>\<open>catch\<close> branch runs in the second case. The four callbacks it installs
  are the functions \<open>onopen\<close>, \<open>onmessage\<close>, \<open>onerror\<close> and \<open>onclose\<close> below.
\<close>

datatype ctor = Returns | Throws

definition connectToWebSocket :: "ctor \<Rightarrow> app \<Rightarrow> app" where
  "connectToWebSocket c s =
     (if trim (name s) = [] then s\<lparr>error := JStr ''Please enter your name''\<rparr>
      else if trim (roomCode s) = [] \<or> length (roomCode s) \<noteq> 6
        then s\<lparr>error := JStr ''Please enter a valid 6-character room code''\<rparr>
      else (case c of
          Returns \<Rightarrow>
            s\<lparr>error := JNull, connectionStatus := Connecting,
              sockets := sockets s @
                [\<lparr>readyState = CONNECTING, captured_roomCode = roomCode s,
                  captured_name = name s\<rparr>],
              wsRef := Some (length (sockets s)),
              wire := wire s @ [Created (length (sockets s))]\<rparr>
        | Throws \<Rightarrow>
            s\<lparr>error := JStr ''Could not establish WebSocket connection'',
              connectionStatus := Disconnected\<rparr>))"

text \<open>\<^verbatim>\<open>ws.onopen\<close> of socket \<open>i\<close>: send the join frame, then set the status.\<close>

definition onopen :: "nat \<Rightarrow> app \<Rightarrow> thrown + app" where
  "onopen i s =
     (case ws_send i (Join (captured_roomCode (sockets s ! i))
                           (trim (captured_name (sockets s ! i)))) s of
        Inl e \<Rightarrow> Inl e
      | Inr s' \<Rightarrow> Inr (s'\<lparr>connectionStatus := Connected\<rparr>))"

text \<open>
  \<^verbatim>\<open>ws.onmessage\<close>. A SyntaxError of the parser and a TypeError of a property read in the
  \<^verbatim>\<open>switch\<close> are caught and logged. The \<^verbatim>\<open>switch\<close> compares with \<^verbatim>\<open>===\<close>. \<open>now\<close> is
  \<^verbatim>\<open>Date.now()\<close>.
\<close>

definition onmessage :: "parsed \<Rightarrow> nat \<Rightarrow> app \<Rightarrow> thrown + app" where
  "onmessage p now s =
     (case p of
        SyntaxError \<Rightarrow> Inr s
      | Parsed v \<Rightarrow>
          (case get_prop v ''type'' of
             None \<Rightarrow> Inr s
           | Some t \<Rightarrow>
               if t = JStr ''room_joined'' then Inr s
               else if t = JStr ''user_list'' then
                 (case get_prop v ''payload'' of
                    None \<Rightarrow> Inr s
                  | Some pl \<Rightarrow> Inr (s\<lparr>participants := pl\<rparr>))
               else if t = JStr ''chat_message'' then
                 (case get_prop v ''payload'' of
                    None \<Rightarrow> Inl UpdaterTypeError
                  | Some pl \<Rightarrow>
                      (case (get_prop pl ''sender'', get_prop pl ''text'') of
                         (Some a, Some b) \<Rightarrow>
                           Inr (s\<lparr>messages := messages s @
                                  [\<lparr>sender = a, text' = b, timestamp = now\<rparr>]\<rparr>)
                       | _ \<Rightarrow> Inl UpdaterTypeError))
               else if t = JStr ''error'' then
                 (case get_prop v ''payload'' of
                    None \<Rightarrow> Inr s
                  | Some pl \<Rightarrow>
                      (case get_prop pl ''message'' of
                         None \<Rightarrow> Inr s
                       | Some m \<Rightarrow> Inr (s\<lparr>error := m\<rparr>)))
               else Inr s))"

definition onerror :: "app \<Rightarrow> app" where
  "onerror s = s\<lparr>connectionStatus := Disconnected,
                 error := JStr ''Failed to connect to the room''\<rparr>"

definition onclose :: "app \<Rightarrow> app" where
  "onclose s = s\<lparr>connectionStatus := Disconnected\<rparr>"

text \<open>\<^verbatim>\<open>sendMessage\<close>: an empty string and a null reference are falsy.\<close>

definition sendMessage :: "app \<Rightarrow> thrown + app" where
  "sendMessage s =
     (case wsRef s of
        None \<Rightarrow> Inr s
      | Some i \<Rightarrow>
          if trim (currentMessage s) \<noteq> [] \<and> connectionStatus s = Connected
          then (case ws_send i (ChatMessage (roomCode s) (name s) (trim (currentMessage s))) s of
                  Inl e \<Rightarrow> Inl e
                | Inr s' \<Rightarrow> Inr (s'\<lparr>currentMessage := []\<rparr>))
          else Inr s)"

definition leaveRoom :: "app \<Rightarrow> thrown + app" where
  "leaveRoom s =
     (case wsRef s of
        None \<Rightarrow> Inr s
      | Some i \<Rightarrow>
          (case ws_send i (Leave (roomCode s) (name s)) s of
             Inl e \<Rightarrow> Inl e
           | Inr s' \<Rightarrow>
               Inr ((ws_close i s')\<lparr>wsRef := None, connectionStatus := Disconnected,
                      messages := [], participants := JArr []\<rparr>)))"

section \<open>Events\<close>

text \<open>
  Everything that can happen to the component, one event at a time, with a render between
  two events so that each handler sees the current state. The values of \<open>SetName\<close>,
  \<open>SetRoomCode\<close> and \<open>SetCurrentMessage\<close> are what the input's \<^verbatim>\<open>onChange\<close> passes to the
  setter (for the room code, the upper-cased value). A socket that fails fires its error
  event and then its close event in one task; one that closes cleanly fires the close
  event alone. Both have set \<^verbatim>\<open>readyState\<close> to CLOSED before the callbacks run, and the
  open event has set it to OPEN.
\<close>

datatype event =
    SetName string
  | SetRoomCode string
  | SetCurrentMessage string
  | JoinClick ctor
  | SendClick
  | LeaveClick
  | SockOpen nat
  | SockMessage nat parsed nat
  | SockFail nat
  | SockClose nat

fun step :: "event \<Rightarrow> app \<Rightarrow> thrown + app" where
  "step (SetName v) s = Inr (s\<lparr>name := v\<rparr>)"
| "step (SetRoomCode v) s = Inr (s\<lparr>roomCode := v\<rparr>)"
| "step (SetCurrentMessage v) s = Inr (s\<lparr>currentMessage := v\<rparr>)"
| "step (JoinClick c) s = Inr (connectToWebSocket c s)"
| "step SendClick s = sendMessage s"
| "step LeaveClick s = leaveRoom s"
| "step (SockOpen i) s = onopen i (set_ready i OPEN s)"
| "step (SockMessage i p now) s = onmessage p now s"
| "step (SockFail i) s = Inr (onclose (onerror (set_ready i CLOSED s)))"
| "step (SockClose i) s = Inr (onclose (set_ready i CLOSED s))"

text \<open>
  When an event can occur. The join form is rendered unless the status is Connected, the
  chat view only when it is. A socket opens once, while connecting; delivers messages
  only while open; and fails or closes once.
\<close>

fun enabled :: "event \<Rightarrow> app \<Rightarrow> bool" where
  "enabled (SetName v) s = (connectionStatus s \<noteq> Connected)"
| "enabled (SetRoomCode v) s = (connectionStatus s \<noteq> Connected)"
| "enabled (JoinClick c) s = (connectionStatus s \<noteq> Connected)"
| "enabled (SetCurrentMessage v) s = (connectionStatus s = Connected)"
| "enabled SendClick s = (connectionStatus s = Connected)"
| "enabled LeaveClick s = (connectionStatus s = Connected)"
| "enabled (SockOpen i) s = (ready s i = Some CONNECTING)"
| "enabled (SockMessage i p now) s = (ready s i = Some OPEN)"
| "enabled (SockFail i) s = (ready s i \<noteq> None \<and> ready s i \<noteq> Some CLOSED)"
| "enabled (SockClose i) s = (ready s i \<noteq> None \<and> ready s i \<noteq> Some CLOSED)"

text \<open>
  Rendering. After every change of the state React renders the component again, and an
  exception thrown while rendering unmounts it. Two expressions of the JSX can throw on
  a value that came from a frame. A value placed between tags as a child must be a
  string, a number, a boolean, \<^verbatim>\<open>null\<close>, \<^verbatim>\<open>undefined\<close> or an array of such values; a
  plain object is refused. And \<^verbatim>\<open>participants.map\<close> throws unless \<^verbatim>\<open>participants\<close> is
  an array.
\<close>

fun renderable :: "jsval \<Rightarrow> bool" where
  "renderable (JObj kvs) = False"
| "renderable (JArr xs) = list_all renderable xs"
| "renderable v = True"

fun truthy :: "jsval \<Rightarrow> bool" where
  "truthy JUndefined = False"
| "truthy JNull = False"
| "truthy (JBool b) = b"
| "truthy (JNum n) = (n \<noteq> 0)"
| "truthy (JStr str) = (str \<noteq> [])"
| "truthy v = True"

text \<open>
  The join form shows \<^verbatim>\<open>{error && (... <span>{error}</span> ...)}\<close>: a truthy error is
  rendered as a child. The other values it shows are strings.
\<close>

definition join_form_renders :: "app \<Rightarrow> bool" where
  "join_form_renders s = (if truthy (error s) then renderable (error s) else True)"

text \<open>
  The chat view maps over \<^verbatim>\<open>participants\<close> and renders each element as a child, then
  maps over \<^verbatim>\<open>messages\<close> and renders \<^verbatim>\<open>msg.sender\<close> and \<^verbatim>\<open>msg.text\<close> as children.
\<close>

definition chat_view_renders :: "app \<Rightarrow> bool" where
  "chat_view_renders s =
     ((case participants s of JArr ps \<Rightarrow> list_all renderable ps | _ \<Rightarrow> False) \<and>
      list_all (\<lambda>m. renderable (sender m) \<and> renderable (text' m)) (messages s))"

text \<open>\<^verbatim>\<open>if (connectionStatus !== 'connected')\<close> chooses the join form, else the chat view.\<close>

definition renders :: "app \<Rightarrow> bool" where
  "renders s =
     (if connectionStatus s \<noteq> Connected then join_form_renders s else chat_view_renders s)"

text \<open>
  A run of the component. A handler that throws InvalidStateError does so at its
  \<^verbatim>\<open>send\<close>, before it has changed anything, and the component goes on from the
  state it had. After a handler has returned, the new state is rendered. An error thrown
  by the updater is raised while React renders, and so is an error of the render itself;
  either unmounts the component, which ends the run. The result is \<open>None\<close> then, and
  also when an event of the list cannot occur where it stands.
\<close>

fun run :: "event list \<Rightarrow> app \<Rightarrow> app option" where
  "run [] s = Some s"
| "run (e # es) s =
     (if enabled e s
      then (case step e s of
              Inr s' \<Rightarrow> if renders s' then run es s' else None
            | Inl InvalidStateError \<Rightarrow> run es s
            | Inl UpdaterTypeError \<Rightarrow> None)
      else None)"

text \<open>
  The alphabet of \<^verbatim>\<open>generateRandomCode\<close>, and a well-formed room code: six characters
  of it.
\<close>

definition characters :: string where
  "characters = ''ABCDEFGHIJKLMNOPQRSTUVWXYZ0123456789''"

definition valid_code :: "string \<Rightarrow> bool" where
  "valid_code c = (length c = 6 \<and> (\<forall>ch \<in> set c. ch \<in> set characters))"

text \<open>The \<^verbatim>\<open>case\<close> labels of the \<^verbatim>\<open>switch\<close> in \<^verbatim>\<open>ws.onmessage\<close>.\<close>

definition case_labels :: "string list" where
  "case_labels = [''room_joined'', ''user_list'', ''chat_message'', ''error'']"

text \<open>
  Three states used as examples below: the join form filled in with the name \<open>'' al''\<close>
  (a leading space) and the code ABCDEF; the same session after the click on Join; and
  after its socket has opened and a first list of participants has arrived.
\<close>

definition demo_form :: app where
  "demo_form = initial\<lparr>name := '' al'', roomCode := ''ABCDEF''\<rparr>"

definition demo_connecting :: app where
  "demo_connecting = \<lparr> name = '' al'', messages = [], roomCode = ''ABCDEF'',
     connectionStatus = Connecting, error = JNull, currentMessage = [],
     participants = JArr [], wsRef = Some 0,
     sockets = [\<lparr>readyState = CONNECTING, captured_roomCode = ''ABCDEF'',
                 captured_name = '' al''\<rparr>],
     wire = [Created 0] \<rparr>"

definition demo_room :: app where
  "demo_room = \<lparr> name = '' al'', messages = [], roomCode = ''ABCDEF'',
     connectionStatus = Connected, error = JNull, currentMessage = [],
     participants = JArr [JStr ''carol''], wsRef = Some 0,
     sockets = [\<lparr>readyState = OPEN, captured_roomCode = ''ABCDEF'',
                 captured_name = '' al''\<rparr>],
     wire = [Created 0, Sent 0 (Join ''ABCDEF'' ''al'')] \<rparr>"

section \<open>Trimming\<close>

lemma length_dropWhile_less:
  "xs \<noteq> [] \<Longrightarrow> P (hd xs) \<Longrightarrow> length (dropWhile P xs) < length xs"
  by (cases xs) (auto intro: le_imp_less_Suc length_dropWhile_le)

lemma length_trim_le: "length (trim s) \<le> length s"
  unfolding trim_def
  by (metis length_rev length_dropWhile_le le_trans)

lemma last_dropWhile: "dropWhile P xs \<noteq> [] \<Longrightarrow> last (dropWhile P xs) = last xs"
  by (induction xs) auto

lemma trim_shorter:
  assumes "s \<noteq> []" and "is_ws (hd s) \<or> is_ws (last s)"
  shows "length (trim s) < length s"
proof (cases "is_ws (hd s)")
  case True
  with assms have "length (dropWhile is_ws s) < length s"
    by (simp add: length_dropWhile_less)
  moreover have "length (trim s) \<le> length (dropWhile is_ws s)"
    unfolding trim_def by (metis length_rev length_dropWhile_le)
  ultimately show ?thesis by simp
next
  case False
  with assms have l: "is_ws (last s)" by simp
  show ?thesis
  proof (cases "dropWhile is_ws s = []")
    case True
    have "trim s = []" unfolding trim_def True by simp
    with assms show ?thesis by simp
  next
    case False
    with l have "is_ws (hd (rev (dropWhile is_ws s)))"
      by (simp add: hd_rev last_dropWhile)
    with False have "length (dropWhile is_ws (rev (dropWhile is_ws s))) < length (rev (dropWhile is_ws s))"
      by (intro length_dropWhile_less) simp_all
    also have "\<dots> \<le> length s" by (simp add: length_dropWhile_le)
    finally show ?thesis by (simp add: trim_def)
  qed
qed

lemma trim_changes:
  "s \<noteq> [] \<Longrightarrow> is_ws (hd s) \<or> is_ws (last s) \<Longrightarrow> trim s \<noteq> s"
  using trim_shorter [of s] by auto

lemma dropWhile_none: "\<forall>c \<in> set xs. \<not> P c \<Longrightarrow> dropWhile P xs = xs"
  by (cases xs) auto

lemma trim_no_ws:
  assumes "\<forall>c \<in> set s. \<not> is_ws c"
  shows "trim s = s"
proof -
  from assms have "dropWhile is_ws s = s" by (rule dropWhile_none)
  moreover from assms have "dropWhile is_ws (rev s) = rev s"
    by (intro dropWhile_none) simp
  ultimately show ?thesis by (simp add: trim_def)
qed

lemma characters_not_ws: "c \<in> set characters \<Longrightarrow> \<not> is_ws c"
  by (auto simp: characters_def is_ws_def)

lemma valid_code_trim: "valid_code c \<Longrightarrow> trim c = c \<and> length c = 6 \<and> c \<noteq> []"
  by (auto simp: valid_code_def trim_no_ws characters_not_ws)

lemma trim_al: "trim '' al'' = ''al''"
  by (simp add: trim_def is_ws_def)

lemma trim_code: "trim ''ABCDEF'' = ''ABCDEF''"
  by (simp add: trim_def is_ws_def)

section \<open>What each handler does\<close>

lemma onmessage_syntax_error: "onmessage SyntaxError now s = Inr s"
  by (simp add: onmessage_def)

lemma onmessage_type_error: "get_prop v ''type'' = None \<Longrightarrow> onmessage (Parsed v) now s = Inr s"
  by (simp add: onmessage_def)

lemma onmessage_room_joined:
  "get_prop v ''type'' = Some (JStr ''room_joined'') \<Longrightarrow> onmessage (Parsed v) now s = Inr s"
  by (simp add: onmessage_def)

lemma onmessage_other:
  assumes "get_prop v ''type'' = Some t"
    and "t \<noteq> JStr ''user_list''" and "t \<noteq> JStr ''chat_message''" and "t \<noteq> JStr ''error''"
  shows "onmessage (Parsed v) now s = Inr s"
  using assms by (simp add: onmessage_def)

lemma onmessage_user_list:
  assumes "get_prop v ''type'' = Some (JStr ''user_list'')" and "get_prop v ''payload'' = Some pl"
  shows "onmessage (Parsed v) now s = Inr (s\<lparr>participants := pl\<rparr>)"
  using assms by (simp add: onmessage_def)

lemma onmessage_chat_message:
  assumes "get_prop v ''type'' = Some (JStr ''chat_message'')" and "get_prop v ''payload'' = Some pl"
    and "get_prop pl ''sender'' = Some a" and "get_prop pl ''text'' = Some b"
  shows "onmessage (Parsed v) now s =
           Inr (s\<lparr>messages := messages s @ [\<lparr>sender = a, text' = b, timestamp = now\<rparr>]\<rparr>)"
  using assms by (simp add: onmessage_def)

lemma onmessage_error:
  assumes "get_prop v ''type'' = Some (JStr ''error'')" and "get_prop v ''payload'' = Some pl"
    and "get_prop pl ''message'' = Some m"
  shows "onmessage (Parsed v) now s = Inr (s\<lparr>error := m\<rparr>)"
  using assms by (simp add: onmessage_def)

lemma connect_valid:
  assumes "trim (name s) \<noteq> []" and "trim (roomCode s) \<noteq> []" and "length (roomCode s) = 6"
  shows "connectToWebSocket Returns s =
           s\<lparr>error := JNull, connectionStatus := Connecting,
             sockets := sockets s @
               [\<lparr>readyState = CONNECTING, captured_roomCode = roomCode s,
                 captured_name = name s\<rparr>],
             wsRef := Some (length (sockets s)),
             wire := wire s @ [Created (length (sockets s))]\<rparr>"
  using assms by (simp add: connectToWebSocket_def)

lemma connect_invalid:
  assumes "trim (name s) = [] \<or> trim (roomCode s) = [] \<or> length (roomCode s) \<noteq> 6"
  shows "connectToWebSocket c s = s\<lparr>error := JStr ''Please enter your name''\<rparr> \<or>
         connectToWebSocket c s = s\<lparr>error := JStr ''Please enter a valid 6-character room code''\<rparr>"
  using assms by (auto simp: connectToWebSocket_def)

lemma open_connecting:
  assumes "ready s i = Some CONNECTING"
  shows "step (SockOpen i) s =
           Inr ((set_ready i OPEN s)
                  \<lparr>wire := wire s @ [Sent i (Join (captured_roomCode (sockets s ! i))
                                                 (trim (captured_name (sockets s ! i))))],
                    connectionStatus := Connected\<rparr>)"
  using assms
  by (auto simp: onopen_def ws_send_def ready_def set_ready_def split: if_splits)

lemma open_after_connect:
  assumes "trim (name s) \<noteq> []" and "trim (roomCode s) \<noteq> []" and "length (roomCode s) = 6"
  shows "step (SockOpen (length (sockets s))) (connectToWebSocket Returns s) =
           Inr (s\<lparr>error := JNull, connectionStatus := Connected,
                 sockets := sockets s @
                   [\<lparr>readyState = OPEN, captured_roomCode = roomCode s,
                     captured_name = name s\<rparr>],
                 wsRef := Some (length (sockets s)),
                 wire := wire s @ [Created (length (sockets s)),
                   Sent (length (sockets s)) (Join (roomCode s) (trim (name s)))]\<rparr>)"
proof -
  let ?s1 = "connectToWebSocket Returns s"
  have r: "ready ?s1 (length (sockets s)) = Some CONNECTING"
    by (simp add: connect_valid assms ready_def)
  show ?thesis
    unfolding open_connecting [OF r]
    by (simp add: connect_valid assms set_ready_def)
qed

lemma send_open:
  assumes "wsRef s = Some i" and "ready s i = Some OPEN"
    and "trim (currentMessage s) \<noteq> []" and "connectionStatus s = Connected"
  shows "sendMessage s =
           Inr (s\<lparr>wire := wire s @
                   [Sent i (ChatMessage (roomCode s) (name s) (trim (currentMessage s)))],
                 currentMessage := []\<rparr>)"
  using assms by (simp add: sendMessage_def ws_send_def)

lemma leave_open:
  assumes "wsRef s = Some i" and "ready s i = Some OPEN"
  shows "leaveRoom s =
           Inr ((set_ready i CLOSING s)
                  \<lparr>wire := wire s @ [Sent i (Leave (roomCode s) (name s)), CloseStarted i],
                    wsRef := None, connectionStatus := Disconnected,
                    messages := [], participants := JArr []\<rparr>)"
  using assms
  by (auto simp: leaveRoom_def ws_send_def ws_close_def ready_def set_ready_def split: if_splits)

lemma leave_no_socket: "wsRef s = None \<Longrightarrow> leaveRoom s = Inr s"
  by (simp add: leaveRoom_def)

lemma leave_returns:
  assumes "leaveRoom s = Inr s'"
  shows "roomCode s' = roomCode s \<and> wsRef s' = None"
  using assms
  by (auto simp: leaveRoom_def ws_send_def ws_close_def set_ready_def
      split: option.splits sum.splits ready_state.splits if_splits)

lemma sendMessage_cases:
  assumes "sendMessage s = Inr s'"
  shows "messages s' = messages s \<and>
         (wire s' = wire s \<or>
          (\<exists>i. wsRef s = Some i \<and> connectionStatus s = Connected \<and>
               trim (currentMessage s) \<noteq> [] \<and>
               wire s' = wire s @
                 [Sent i (ChatMessage (roomCode s) (name s) (trim (currentMessage s)))]))"
  using assms
  by (auto simp: sendMessage_def ws_send_def
      split: option.splits if_splits ready_state.splits)

lemma sendMessage_gated:
  assumes "trim (currentMessage s) = [] \<or> wsRef s = None \<or> connectionStatus s \<noteq> Connected"
  shows "sendMessage s = Inr s"
  using assms by (auto simp: sendMessage_def split: option.splits)

lemma status_connectToWebSocket:
  "connectionStatus (connectToWebSocket c s) = Connected \<Longrightarrow> connectionStatus s = Connected"
  by (auto simp: connectToWebSocket_def split: if_splits ctor.splits)

lemma status_sendMessage:
  "sendMessage s = Inr s' \<Longrightarrow> connectionStatus s' = connectionStatus s"
  by (auto simp: sendMessage_def ws_send_def
      split: option.splits if_splits ready_state.splits)

lemma status_leaveRoom:
  "leaveRoom s = Inr s' \<Longrightarrow> connectionStatus s' = Connected \<Longrightarrow> connectionStatus s = Connected"
  by (auto simp: leaveRoom_def split: option.splits sum.splits)

lemma status_onmessage:
  "onmessage p now s = Inr s' \<Longrightarrow> connectionStatus s' = connectionStatus s"
  by (auto simp: onmessage_def split: parsed.splits option.splits if_splits)

lemma status_step:
  assumes "step e s = Inr s'" and "connectionStatus s' = Connected"
    and "connectionStatus s \<noteq> Connected"
  shows "\<exists>j. e = SockOpen j"
proof (cases e)
  case (JoinClick c)
  with assms show ?thesis using status_connectToWebSocket [of c s] by auto
next
  case SendClick
  with assms show ?thesis using status_sendMessage [of s s'] by auto
next
  case LeaveClick
  with assms show ?thesis using status_leaveRoom [of s s'] by auto
next
  case (SockMessage i p now)
  with assms show ?thesis using status_onmessage [of p now s s'] by auto
qed (use assms in \<open>auto simp: onerror_def onclose_def\<close>)

text \<open>The example states are states of a run from the initial state.\<close>

lemma demo_connecting_reached:
  "run [SetName '' al'', SetRoomCode ''ABCDEF'', JoinClick Returns] initial = Some demo_connecting"
  by (simp add: renders_def join_form_renders_def chat_view_renders_def initial_def demo_connecting_def connectToWebSocket_def trim_al trim_code)

lemma demo_room_reached:
  "run [SockOpen 0, SockMessage 0 (Parsed (JObj [(''type'', JStr ''user_list''),
         (''payload'', JArr [JStr ''carol''])])) 3] demo_connecting = Some demo_room"
  by (simp add: renders_def join_form_renders_def chat_view_renders_def demo_connecting_def demo_room_def onopen_def ws_send_def ready_def set_ready_def
      trim_al onmessage_def)

section \<open>The claims\<close>

subsection \<open>C1: when the status becomes Connected\<close>

text \<open>
  Claim C1 says that the status becomes Connected only after a \<^verbatim>\<open>room_joined\<close> frame
  has been received, never on the socket's open event alone. The program does otherwise:
  in the run below the name and the code are entered, Join is clicked and the socket
  opens; no frame has been received, and the status is Connected.
\<close>

theorem open_event_connects_counterexample:
  "map_option connectionStatus
     (run [SetName ''al'', SetRoomCode ''ABCDEF'', JoinClick Returns, SockOpen 0] initial)
   = Some Connected"
  by (simp add: renders_def join_form_renders_def chat_view_renders_def initial_def connectToWebSocket_def trim_def is_ws_def onopen_def ws_send_def
      ready_def set_ready_def)

text \<open>
  Claim C1 as the program has it: the status becomes Connected when a socket's open event
  is handled (a socket that is connecting can always open; its handler sends the join
  frame, with the code and the trimmed name it captured, and sets Connected at once);
  no other event takes the status from another value to Connected; and a \<^verbatim>\<open>room_joined\<close>
  frame leaves the whole state as it was.
\<close>

theorem connected_only_by_open_event:
  "(enabled (SockOpen i) s \<longrightarrow>
      (\<exists>s'. step (SockOpen i) s = Inr s' \<and> connectionStatus s' = Connected \<and>
         wire s' = wire s @ [Sent i (Join (captured_roomCode (sockets s ! i))
                                          (trim (captured_name (sockets s ! i))))]))
   \<and> (\<forall>e s'. step e s = Inr s' \<and> connectionStatus s' = Connected \<and>
          connectionStatus s \<noteq> Connected \<longrightarrow> (\<exists>j. e = SockOpen j))
   \<and> (get_prop v ''type'' = Some (JStr ''room_joined'') \<longrightarrow> onmessage (Parsed v) now s = Inr s)"
proof (intro conjI impI allI)
  assume "enabled (SockOpen i) s"
  then have r: "ready s i = Some CONNECTING" by simp
  then have "i < length (sockets s)" by (simp add: ready_def split: if_splits)
  then show "\<exists>s'. step (SockOpen i) s = Inr s' \<and> connectionStatus s' = Connected \<and>
         wire s' = wire s @ [Sent i (Join (captured_roomCode (sockets s ! i))
                                          (trim (captured_name (sockets s ! i))))]"
    unfolding open_connecting [OF r] by simp
next
  fix e s'
  assume "step e s = Inr s' \<and> connectionStatus s' = Connected \<and> connectionStatus s \<noteq> Connected"
  then show "\<exists>j. e = SockOpen j" using status_step by blast
next
  assume "get_prop v ''type'' = Some (JStr ''room_joined'')"
  then show "onmessage (Parsed v) now s = Inr s" by (rule onmessage_room_joined)
qed

theorem connected_only_by_open_event_witness:
  "enabled (SockOpen 0) demo_connecting \<and>
   (\<exists>s'. step (SockOpen 0) demo_connecting = Inr s' \<and> connectionStatus s' = Connected \<and>
      wire s' = [Created 0, Sent 0 (Join ''ABCDEF'' ''al'')]) \<and>
   get_prop (JObj [(''type'', JStr ''room_joined'')]) ''type'' = Some (JStr ''room_joined'') \<and>
   onmessage (Parsed (JObj [(''type'', JStr ''room_joined'')])) 4 demo_connecting
     = Inr demo_connecting"
proof -
  have h: "enabled (SockOpen 0) demo_connecting"
    by (simp add: demo_connecting_def ready_def)
  have t: "get_prop (JObj [(''type'', JStr ''room_joined'')]) ''type'' = Some (JStr ''room_joined'')"
    by simp
  have f: "wire demo_connecting @
             [Sent 0 (Join (captured_roomCode (sockets demo_connecting ! 0))
                           (trim (captured_name (sockets demo_connecting ! 0))))]
           = [Created 0, Sent 0 (Join ''ABCDEF'' ''al'')]"
    by (simp add: demo_connecting_def trim_al)
  from connected_only_by_open_event
         [of 0 demo_connecting "JObj [(''type'', JStr ''room_joined'')]" 4] h t
  show ?thesis unfolding f by blast
qed

subsection \<open>C2: what a close leaves behind\<close>

text \<open>
  Claim C2 says that participants and messages are empty whenever the status is
  Disconnected, and that a close or an error of the transport empties them. \<^verbatim>\<open>leaveRoom\<close>
  empties both; \<^verbatim>\<open>ws.onclose\<close> and \<^verbatim>\<open>ws.onerror\<close> set the status only. In the run below
  a message is received and the socket then closes: the status is Disconnected and the
  message is still there.
\<close>

theorem close_keeps_messages:
  "map_option (\<lambda>s. (connectionStatus s, messages s))
     (run [SetName ''al'', SetRoomCode ''ABCDEF'', JoinClick Returns, SockOpen 0,
           SockMessage 0 (Parsed (JObj [(''type'', JStr ''chat_message''),
             (''payload'', JObj [(''sender'', JStr ''bob''), (''text'', JStr ''hi'')])])) 5, SockClose 0] initial)
   = Some (Disconnected, [\<lparr>sender = JStr ''bob'', text' = JStr ''hi'', timestamp = 5\<rparr>])"
  by (simp add: renders_def join_form_renders_def chat_view_renders_def initial_def connectToWebSocket_def trim_def is_ws_def onopen_def ws_send_def
      ready_def set_ready_def onmessage_def onclose_def)

subsection \<open>C3: input that Join rejects\<close>

text \<open>
  Claim C3 says that Join fails for every code whose trimmed form is not exactly six
  characters. The program tests the length of the untrimmed code, and of the trimmed
  code only that it is not empty. The code \<open>''ABCD  ''\<close> has six characters, four of them
  after trimming, and Join goes ahead with it: the error is cleared, the status is
  Connecting and a socket is created.
\<close>

theorem short_code_accepted_counterexample:
  "length (trim ''ABCD  '') \<noteq> 6 \<and>
   connectToWebSocket Returns (initial\<lparr>name := ''al'', roomCode := ''ABCD  ''\<rparr>) =
     initial\<lparr>name := ''al'', roomCode := ''ABCD  '', connectionStatus := Connecting,
       sockets := [\<lparr>readyState = CONNECTING, captured_roomCode = ''ABCD  '',
                    captured_name = ''al''\<rparr>],
       wsRef := Some 0, wire := [Created 0]\<rparr>"
  by (simp add: initial_def connectToWebSocket_def trim_def is_ws_def)

text \<open>
  Claim C3 as the program has it: when the trimmed name is empty, or the trimmed code is
  empty, or the code is not six characters long untrimmed, Join sets the error to a
  message and does nothing else: the status is what it was, no socket is created and
  nothing is sent.
\<close>

theorem join_rejects_invalid_input:
  assumes "trim (name s) = [] \<or> trim (roomCode s) = [] \<or> length (roomCode s) \<noteq> 6"
  shows "(\<exists>msg. error (connectToWebSocket c s) = JStr msg) \<and>
         connectionStatus (connectToWebSocket c s) = connectionStatus s \<and>
         wsRef (connectToWebSocket c s) = wsRef s \<and>
         sockets (connectToWebSocket c s) = sockets s \<and>
         wire (connectToWebSocket c s) = wire s"
  using connect_invalid [OF assms, of c] by auto

theorem join_rejects_invalid_input_witness:
  "trim (name (initial\<lparr>name := ''  '', roomCode := ''ABCDEF''\<rparr>)) = [] \<and>
   (\<exists>msg. error (connectToWebSocket Returns (initial\<lparr>name := ''  '', roomCode := ''ABCDEF''\<rparr>))
            = JStr msg) \<and>
   connectionStatus (connectToWebSocket Returns (initial\<lparr>name := ''  '', roomCode := ''ABCDEF''\<rparr>))
     = Disconnected \<and>
   wire (connectToWebSocket Returns (initial\<lparr>name := ''  '', roomCode := ''ABCDEF''\<rparr>)) = []"
proof -
  have h: "trim (name (initial\<lparr>name := ''  '', roomCode := ''ABCDEF''\<rparr>)) = []"
    by (simp add: trim_def is_ws_def)
  have i: "connectionStatus (initial\<lparr>name := ''  '', roomCode := ''ABCDEF''\<rparr>) = Disconnected"
    "wire (initial\<lparr>name := ''  '', roomCode := ''ABCDEF''\<rparr>) = []"
    by (simp_all add: initial_def)
  from join_rejects_invalid_input
         [of "initial\<lparr>name := ''  '', roomCode := ''ABCDEF''\<rparr>" Returns] h i
  show ?thesis by simp
qed

subsection \<open>C4: a valid Join\<close>

text \<open>
  Claim C4: for a well-formed code and a name that is not empty after trimming, Join
  (with \<^verbatim>\<open>new WebSocket\<close> returning) sets the status to Connecting, from Disconnected as
  from any other status, clears the error and creates one socket without sending
  anything yet; when that socket opens, exactly one frame is sent on it, the join frame
  with the code as it is and the trimmed name.
\<close>

theorem join_connects_and_sends_one_join_frame:
  assumes "valid_code (roomCode s)" and "trim (name s) \<noteq> []"
  shows "connectionStatus (connectToWebSocket Returns s) = Connecting \<and>
         error (connectToWebSocket Returns s) = JNull \<and>
         wsRef (connectToWebSocket Returns s) = Some (length (sockets s)) \<and>
         ready (connectToWebSocket Returns s) (length (sockets s)) = Some CONNECTING \<and>
         wire (connectToWebSocket Returns s) = wire s @ [Created (length (sockets s))] \<and>
         (\<exists>s'. step (SockOpen (length (sockets s))) (connectToWebSocket Returns s) = Inr s' \<and>
            wire s' = wire s @ [Created (length (sockets s)),
              Sent (length (sockets s)) (Join (roomCode s) (trim (name s)))])"
proof -
  from assms(1) have c: "trim (roomCode s) \<noteq> []" "length (roomCode s) = 6"
    using valid_code_trim [of "roomCode s"] by auto
  have o: "\<exists>s'. step (SockOpen (length (sockets s))) (connectToWebSocket Returns s) = Inr s' \<and>
            wire s' = wire s @ [Created (length (sockets s)),
              Sent (length (sockets s)) (Join (roomCode s) (trim (name s)))]"
    unfolding open_after_connect [OF assms(2) c] by simp
  show ?thesis
    using o unfolding connect_valid [OF assms(2) c]
    by (simp add: ready_def del: step.simps)
qed

theorem join_connects_and_sends_one_join_frame_witness:
  "valid_code (roomCode demo_form) \<and> trim (name demo_form) \<noteq> [] \<and>
   connectionStatus (connectToWebSocket Returns demo_form) = Connecting \<and>
   error (connectToWebSocket Returns demo_form) = JNull \<and>
   wire (connectToWebSocket Returns demo_form) = [Created 0] \<and>
   (\<exists>s'. step (SockOpen 0) (connectToWebSocket Returns demo_form) = Inr s' \<and>
      wire s' = [Created 0, Sent 0 (Join ''ABCDEF'' ''al'')])"
proof -
  have v: "valid_code (roomCode demo_form)"
    by (simp add: demo_form_def valid_code_def characters_def)
  have n: "trim (name demo_form) \<noteq> []"
    by (simp add: demo_form_def trim_al)
  have f: "sockets demo_form = []" "wire demo_form = []" "roomCode demo_form = ''ABCDEF''"
    "trim (name demo_form) = ''al''"
    by (simp_all add: demo_form_def initial_def trim_al)
  from join_connects_and_sends_one_join_frame [OF v n] v n
  show ?thesis unfolding f by simp
qed

subsection \<open>C5: frames that arrive while Disconnected\<close>

text \<open>
  Claim C5 says that every frame received once the status is Disconnected is ignored.
  \<^verbatim>\<open>ws.onmessage\<close> never looks at the status. In the run below Join is clicked twice
  before either socket has opened, both sockets open, and Leave closes the second one,
  the one \<^verbatim>\<open>wsRef\<close> holds. The status is Disconnected and the messages are empty; the first
  socket is still open, and a chat message that arrives on it is appended.
\<close>

theorem frame_after_leave_counterexample:
  "map_option (\<lambda>s. (connectionStatus s, messages s))
     (run [SetName ''al'', SetRoomCode ''ABCDEF'', JoinClick Returns, JoinClick Returns,
           SockOpen 0, SockOpen 1, LeaveClick] initial)
   = Some (Disconnected, []) \<and>
   map_option (\<lambda>s. (connectionStatus s, messages s))
     (run [SetName ''al'', SetRoomCode ''ABCDEF'', JoinClick Returns, JoinClick Returns,
           SockOpen 0, SockOpen 1, LeaveClick,
           SockMessage 0 (Parsed (JObj [(''type'', JStr ''chat_message''),
             (''payload'', JObj [(''sender'', JStr ''bob''), (''text'', JStr ''hi'')])])) 5]
        initial)
   = Some (Disconnected, [\<lparr>sender = JStr ''bob'', text' = JStr ''hi'', timestamp = 5\<rparr>])"
  by (simp add: renders_def join_form_renders_def chat_view_renders_def initial_def connectToWebSocket_def trim_def is_ws_def onopen_def ws_send_def
      ready_def set_ready_def leaveRoom_def ws_close_def onmessage_def)

text \<open>
  Claim C5 as the program has it: while the status is Disconnected a \<^verbatim>\<open>room_joined\<close>
  frame leaves the state unchanged, and the other three kinds are applied as in any other
  status: \<^verbatim>\<open>user_list\<close> replaces the participants, \<^verbatim>\<open>chat_message\<close> appends to the
  messages, \<^verbatim>\<open>error\<close> sets the error. The status stays Disconnected.
\<close>

theorem frames_applied_when_disconnected:
  assumes "connectionStatus s = Disconnected" and "get_prop v ''payload'' = Some pl"
  shows "(get_prop v ''type'' = Some (JStr ''room_joined'') \<longrightarrow>
            onmessage (Parsed v) now s = Inr s)
       \<and> (get_prop v ''type'' = Some (JStr ''user_list'') \<longrightarrow>
            onmessage (Parsed v) now s = Inr (s\<lparr>participants := pl\<rparr>))
       \<and> (get_prop v ''type'' = Some (JStr ''chat_message'') \<and>
          get_prop pl ''sender'' = Some a \<and> get_prop pl ''text'' = Some b \<longrightarrow>
            onmessage (Parsed v) now s =
              Inr (s\<lparr>messages := messages s @ [\<lparr>sender = a, text' = b, timestamp = now\<rparr>]\<rparr>))
       \<and> (get_prop v ''type'' = Some (JStr ''error'') \<and> get_prop pl ''message'' = Some m \<longrightarrow>
            onmessage (Parsed v) now s = Inr (s\<lparr>error := m\<rparr>))"
  using assms(2)
  by (simp add: onmessage_room_joined onmessage_user_list onmessage_chat_message onmessage_error)

theorem frames_applied_when_disconnected_witness:
  "connectionStatus initial = Disconnected \<and>
   onmessage (Parsed (JObj [(''type'', JStr ''chat_message''),
       (''payload'', JObj [(''sender'', JStr ''bob''), (''text'', JStr ''hi'')])])) 5 initial
     = Inr (initial\<lparr>messages := messages initial @
              [\<lparr>sender = JStr ''bob'', text' = JStr ''hi'', timestamp = 5\<rparr>]\<rparr>)"
proof -
  let ?pl = "JObj [(''sender'', JStr ''bob''), (''text'', JStr ''hi'')]"
  let ?v = "JObj [(''type'', JStr ''chat_message''), (''payload'', ?pl)]"
  have d: "connectionStatus initial = Disconnected" by (simp add: initial_def)
  have p: "get_prop ?v ''payload'' = Some ?pl" by simp
  have t: "get_prop ?v ''type'' = Some (JStr ''chat_message'')" by simp
  have a: "get_prop ?pl ''sender'' = Some (JStr ''bob'')" by simp
  have b: "get_prop ?pl ''text'' = Some (JStr ''hi'')" by simp
  from frames_applied_when_disconnected [OF d p, where a = "JStr ''bob''" and b = "JStr ''hi''" and now = 5] t a b d
  show ?thesis by blast
qed

subsection \<open>C6: sending a message\<close>

text \<open>
  Claim C6: \<^verbatim>\<open>sendMessage\<close> changes nothing and sends nothing when the trimmed text is
  empty, when \<^verbatim>\<open>wsRef\<close> holds no socket, or when the status is not Connected. Whenever it
  returns, the messages are what they were, and the log of effects is either unchanged or
  longer by exactly one chat frame, with the trimmed text, sent with all three
  conditions met.
\<close>

theorem send_is_gated_and_not_echoed:
  "(trim (currentMessage s) = [] \<or> wsRef s = None \<or> connectionStatus s \<noteq> Connected
      \<longrightarrow> sendMessage s = Inr s)
   \<and> (\<forall>s'. sendMessage s = Inr s' \<longrightarrow>
        messages s' = messages s \<and>
        (wire s' = wire s \<or>
         (\<exists>i. wsRef s = Some i \<and> connectionStatus s = Connected \<and>
              trim (currentMessage s) \<noteq> [] \<and>
              wire s' = wire s @
                [Sent i (ChatMessage (roomCode s) (name s) (trim (currentMessage s)))])))"
  using sendMessage_gated [of s] sendMessage_cases [of s] by blast

theorem send_is_gated_and_not_echoed_witness:
  "trim (currentMessage (demo_room\<lparr>currentMessage := ''   ''\<rparr>)) = [] \<and>
   sendMessage (demo_room\<lparr>currentMessage := ''   ''\<rparr>) = Inr (demo_room\<lparr>currentMessage := ''   ''\<rparr>) \<and>
   sendMessage (demo_room\<lparr>currentMessage := '' hi ''\<rparr>)
     = Inr (demo_room\<lparr>wire := wire demo_room @ [Sent 0 (ChatMessage ''ABCDEF'' '' al'' ''hi'')]\<rparr>) \<and>
   messages (demo_room\<lparr>wire := wire demo_room @ [Sent 0 (ChatMessage ''ABCDEF'' '' al'' ''hi'')]\<rparr>)
     = messages (demo_room\<lparr>currentMessage := '' hi ''\<rparr>)"
proof -
  have h: "trim (currentMessage (demo_room\<lparr>currentMessage := ''   ''\<rparr>)) = []"
    by (simp add: trim_def is_ws_def)
  have e: "sendMessage (demo_room\<lparr>currentMessage := '' hi ''\<rparr>)
     = Inr (demo_room\<lparr>wire := wire demo_room @ [Sent 0 (ChatMessage ''ABCDEF'' '' al'' ''hi'')]\<rparr>)"
    by (simp add: sendMessage_def ws_send_def ready_def demo_room_def trim_def is_ws_def)
  from send_is_gated_and_not_echoed [of "demo_room\<lparr>currentMessage := ''   ''\<rparr>"]
       send_is_gated_and_not_echoed [of "demo_room\<lparr>currentMessage := '' hi ''\<rparr>"] h e
  show ?thesis by blast
qed

subsection \<open>C7: leaving\<close>

text \<open>
  Claim C7 says that Leave, clicked while Connected, sends a leave frame, resets the
  session and clears the room code. It fails in two ways. \<^verbatim>\<open>leaveRoom\<close> never calls
  \<^verbatim>\<open>setRoomCode\<close>: after Join, open and Leave the status is Disconnected and the room code
  is still ABCDEF. And the status can be Connected while \<^verbatim>\<open>wsRef\<close> holds a socket that
  is not open: with Join clicked twice, the first socket opens and sets Connected while
  \<^verbatim>\<open>wsRef\<close> holds the second, still connecting; \<^verbatim>\<open>send\<close> throws on it, so that Leave
  sends nothing and the status stays Connected.
\<close>

theorem leave_claim_counterexample:
  "map_option (\<lambda>s. (connectionStatus s, roomCode s))
     (run [SetName ''al'', SetRoomCode ''ABCDEF'', JoinClick Returns, SockOpen 0, LeaveClick]
        initial)
   = Some (Disconnected, ''ABCDEF'') \<and>
   map_option (\<lambda>s. (connectionStatus s, wsRef s, wire s))
     (run [SetName ''al'', SetRoomCode ''ABCDEF'', JoinClick Returns, JoinClick Returns,
           SockOpen 0, LeaveClick] initial)
   = Some (Connected, Some 1, [Created 0, Created 1, Sent 0 (Join ''ABCDEF'' ''al'')])"
  by (simp add: renders_def join_form_renders_def chat_view_renders_def initial_def
      connectToWebSocket_def trim_def is_ws_def onopen_def ws_send_def
      ready_def set_ready_def leaveRoom_def ws_close_def)

text \<open>
  Claim C7 as the program has it, for Leave clicked while Connected. Whenever the call
  returns, the room code is what it was and a second Leave right after changes nothing.
  When the socket that \<^verbatim>\<open>wsRef\<close> holds is open, the call returns, having sent exactly one
  leave frame and started to close that socket, with messages and participants empty,
  the status Disconnected and \<^verbatim>\<open>wsRef\<close> empty. Nothing is said of the frame and the reset
  when that socket is not open.
\<close>

theorem leave_resets_session:
  assumes "connectionStatus s = Connected"
  shows "(\<forall>s'. leaveRoom s = Inr s' \<longrightarrow> roomCode s' = roomCode s \<and> leaveRoom s' = Inr s')
       \<and> (\<forall>i. wsRef s = Some i \<and> ready s i = Some OPEN \<longrightarrow>
            (\<exists>s'. leaveRoom s = Inr s' \<and>
               wire s' = wire s @ [Sent i (Leave (roomCode s) (name s)), CloseStarted i] \<and>
               ready s' i = Some CLOSING \<and>
               messages s' = [] \<and> participants s' = JArr [] \<and>
               connectionStatus s' = Disconnected \<and> wsRef s' = None))"
proof (rule conjI)
  show "\<forall>s'. leaveRoom s = Inr s' \<longrightarrow> roomCode s' = roomCode s \<and> leaveRoom s' = Inr s'"
  proof (rule allI, rule impI)
    fix s'
    assume "leaveRoom s = Inr s'"
    then have "roomCode s' = roomCode s" and "wsRef s' = None"
      using leave_returns [of s s'] by simp_all
    then show "roomCode s' = roomCode s \<and> leaveRoom s' = Inr s'"
      by (simp add: leave_no_socket)
  qed
next
  show "\<forall>i. wsRef s = Some i \<and> ready s i = Some OPEN \<longrightarrow>
            (\<exists>s'. leaveRoom s = Inr s' \<and>
               wire s' = wire s @ [Sent i (Leave (roomCode s) (name s)), CloseStarted i] \<and>
               ready s' i = Some CLOSING \<and>
               messages s' = [] \<and> participants s' = JArr [] \<and>
               connectionStatus s' = Disconnected \<and> wsRef s' = None)"
  proof (rule allI, rule impI)
    fix i
    assume a: "wsRef s = Some i \<and> ready s i = Some OPEN"
    then have "i < length (sockets s)"
      by (simp add: ready_def split: if_splits)
    then show "\<exists>s'. leaveRoom s = Inr s' \<and>
               wire s' = wire s @ [Sent i (Leave (roomCode s) (name s)), CloseStarted i] \<and>
               ready s' i = Some CLOSING \<and>
               messages s' = [] \<and> participants s' = JArr [] \<and>
               connectionStatus s' = Disconnected \<and> wsRef s' = None"
      using a leave_open [of s i] by (simp add: ready_def set_ready_def)
  qed
qed

theorem leave_resets_session_witness:
  "connectionStatus demo_room = Connected \<and>
   wsRef demo_room = Some 0 \<and> ready demo_room 0 = Some OPEN \<and>
   (\<exists>s'. leaveRoom demo_room = Inr s' \<and>
      wire s' = wire demo_room @ [Sent 0 (Leave ''ABCDEF'' '' al''), CloseStarted 0] \<and>
      messages s' = [] \<and> participants s' = JArr [] \<and> connectionStatus s' = Disconnected \<and>
      roomCode s' = ''ABCDEF'' \<and> leaveRoom s' = Inr s')"
proof -
  have c: "connectionStatus demo_room = Connected"
    by (simp add: demo_room_def)
  have h: "wsRef demo_room = Some 0 \<and> ready demo_room 0 = Some OPEN"
    by (simp add: demo_room_def ready_def)
  have f: "roomCode demo_room = ''ABCDEF''" "name demo_room = '' al''"
    by (simp_all add: demo_room_def)
  from leave_resets_session [OF c] have
    1: "\<forall>s'. leaveRoom demo_room = Inr s' \<longrightarrow>
           roomCode s' = ''ABCDEF'' \<and> leaveRoom s' = Inr s'"
    and 2: "\<forall>i. wsRef demo_room = Some i \<and> ready demo_room i = Some OPEN \<longrightarrow>
            (\<exists>s'. leaveRoom demo_room = Inr s' \<and>
               wire s' = wire demo_room @ [Sent i (Leave ''ABCDEF'' '' al''), CloseStarted i] \<and>
               ready s' i = Some CLOSING \<and>
               messages s' = [] \<and> participants s' = JArr [] \<and>
               connectionStatus s' = Disconnected \<and> wsRef s' = None)"
    unfolding f by blast+
  from 2 h obtain s' where s': "leaveRoom demo_room = Inr s'"
    "wire s' = wire demo_room @ [Sent 0 (Leave ''ABCDEF'' '' al''), CloseStarted 0]"
    "messages s' = []" "participants s' = JArr []" "connectionStatus s' = Disconnected"
    by blast
  from 1 s'(1) have "roomCode s' = ''ABCDEF''" "leaveRoom s' = Inr s'" by blast+
  with s' c h show ?thesis by blast
qed

subsection \<open>C8: the list of participants\<close>

text \<open>
  Claim C8: a \<^verbatim>\<open>user_list\<close> frame replaces the participants by its payload, whatever they
  were before and whatever the status, Connecting and Connected included; nothing else
  of the state changes.
\<close>

theorem user_list_replaces_participants:
  assumes "get_prop v ''type'' = Some (JStr ''user_list'')"
    and "get_prop v ''payload'' = Some pl"
  shows "onmessage (Parsed v) now s = Inr (s\<lparr>participants := pl\<rparr>)"
  using assms by (rule onmessage_user_list)

theorem user_list_replaces_participants_witness:
  "get_prop (JObj [(''type'', JStr ''user_list''),
                   (''payload'', JArr [JStr ''alice'', JStr ''bob''])]) ''type''
     = Some (JStr ''user_list'') \<and>
   onmessage (Parsed (JObj [(''type'', JStr ''user_list''),
                   (''payload'', JArr [JStr ''alice'', JStr ''bob''])])) 9 demo_room
     = Inr (demo_room\<lparr>participants := JArr [JStr ''alice'', JStr ''bob'']\<rparr>)"
proof -
  let ?v = "JObj [(''type'', JStr ''user_list''), (''payload'', JArr [JStr ''alice'', JStr ''bob''])]"
  have t: "get_prop ?v ''type'' = Some (JStr ''user_list'')" by simp
  have p: "get_prop ?v ''payload'' = Some (JArr [JStr ''alice'', JStr ''bob''])" by simp
  from user_list_replaces_participants [OF t p, of 9 demo_room] t show ?thesis by simp
qed

subsection \<open>C9: frames the handler does not know\<close>

text \<open>
  Claim C9: a frame that is not JSON, or whose \<^verbatim>\<open>type\<close> is none of the labels of the
  \<^verbatim>\<open>switch\<close>, is handled without an exception leaving the handler and without any change
  of the state, in every status.
\<close>

theorem unrecognized_frame_is_ignored:
  assumes "p = SyntaxError \<or>
           (\<exists>v. p = Parsed v \<and> (\<forall>t \<in> set case_labels. get_prop v ''type'' \<noteq> Some (JStr t)))"
  shows "onmessage p now s = Inr s"
proof -
  from assms consider "p = SyntaxError"
    | v where "p = Parsed v" "\<forall>t \<in> set case_labels. get_prop v ''type'' \<noteq> Some (JStr t)"
    by blast
  then show ?thesis
  proof cases
    case 1
    then show ?thesis by (simp add: onmessage_syntax_error)
  next
    case 2
    show ?thesis
    proof (cases "get_prop v ''type''")
      case None
      with 2 show ?thesis by (simp add: onmessage_type_error)
    next
      case (Some t)
      with 2 have "t \<noteq> JStr ''user_list''" "t \<noteq> JStr ''chat_message''" "t \<noteq> JStr ''error''"
        by (auto simp: case_labels_def)
      with 2 Some show ?thesis by (simp add: onmessage_other)
    qed
  qed
qed

theorem unrecognized_frame_is_ignored_witness:
  "get_prop (JObj [(''type'', JStr ''ping'')]) ''type'' = Some (JStr ''ping'') \<and>
   ''ping'' \<notin> set case_labels \<and>
   onmessage (Parsed (JObj [(''type'', JStr ''ping'')])) 7 demo_room = Inr demo_room \<and>
   onmessage SyntaxError 7 initial = Inr initial"
proof -
  have t: "get_prop (JObj [(''type'', JStr ''ping'')]) ''type'' = Some (JStr ''ping'')"
    by simp
  have n: "''ping'' \<notin> set case_labels"
    by (simp add: case_labels_def)
  have h: "\<forall>t \<in> set case_labels.
             get_prop (JObj [(''type'', JStr ''ping'')]) ''type'' \<noteq> Some (JStr t)"
    using n by (auto simp: t)
  show ?thesis
    using t n h
      unrecognized_frame_is_ignored [of "Parsed (JObj [(''type'', JStr ''ping'')])" 7 demo_room]
      unrecognized_frame_is_ignored [of SyntaxError 7 initial]
    by simp
qed

subsection \<open>C10: the name on the wire\<close>

text \<open>
  Claim C10: when the name starts or ends with white space, its trimmed form differs
  from it; the join frame of a session carries the trimmed form, and the chat and leave
  frames of the same session carry the name as typed. The session is Join, open, a text
  typed, Send, Leave, from any state that shows the join form and whose participants and
  messages the chat view can render.
\<close>

theorem join_frame_trims_name_later_frames_do_not:
  assumes "is_ws (hd (name s)) \<or> is_ws (last (name s))" and "trim (name s) \<noteq> []"
    and "trim (roomCode s) \<noteq> []" and "length (roomCode s) = 6"
    and "connectionStatus s \<noteq> Connected" and "trim t \<noteq> []"
    and "chat_view_renders s"
  shows "trim (name s) \<noteq> name s \<and>
         map_option wire
           (run [JoinClick Returns, SockOpen (length (sockets s)), SetCurrentMessage t,
                 SendClick, LeaveClick] s)
         = Some (wire s @
             [Created (length (sockets s)),
              Sent (length (sockets s)) (Join (roomCode s) (trim (name s))),
              Sent (length (sockets s)) (ChatMessage (roomCode s) (name s) (trim t)),
              Sent (length (sockets s)) (Leave (roomCode s) (name s)),
              CloseStarted (length (sockets s))])"
proof
  from assms(2) have "name s \<noteq> []" by (auto simp: trim_def)
  then show "trim (name s) \<noteq> name s" using assms(1) by (rule trim_changes)
next
  let ?k = "length (sockets s)"
  let ?s1 = "connectToWebSocket Returns s"
  let ?s2 = "s\<lparr>error := JNull, connectionStatus := Connected,
                 sockets := sockets s @
                   [\<lparr>readyState = OPEN, captured_roomCode = roomCode s,
                     captured_name = name s\<rparr>],
                 wsRef := Some ?k,
                 wire := wire s @ [Created ?k, Sent ?k (Join (roomCode s) (trim (name s)))]\<rparr>"
  let ?s3 = "?s2\<lparr>currentMessage := t\<rparr>"
  let ?s4 = "?s3\<lparr>wire := wire ?s3 @ [Sent ?k (ChatMessage (roomCode s) (name s) (trim t))],
                 currentMessage := []\<rparr>"
  have e1: "enabled (JoinClick Returns) s" using assms(5) by simp
  have e2: "enabled (SockOpen ?k) ?s1"
    by (simp add: connect_valid assms ready_def)
  have r1: "renders ?s1"
    by (simp add: connect_valid assms renders_def join_form_renders_def)
  have s2: "step (SockOpen ?k) ?s1 = Inr ?s2"
    by (rule open_after_connect) (use assms in auto)
  have r2: "renders ?s2" "renders ?s3" "renders ?s4"
    using assms(7) by (simp_all add: renders_def chat_view_renders_def)
  have s4: "sendMessage ?s3 = Inr ?s4"
    using send_open [of ?s3 ?k] assms(6) by (simp add: ready_def)
  have "\<exists>s5. leaveRoom ?s4 = Inr s5 \<and>
       wire s5 = wire ?s4 @ [Sent ?k (Leave (roomCode s) (name s)), CloseStarted ?k] \<and>
       connectionStatus s5 = Disconnected \<and> error s5 = JNull"
    using leave_open [of ?s4 ?k] by (simp add: ready_def set_ready_def)
  then obtain s5 where s5: "leaveRoom ?s4 = Inr s5"
    "wire s5 = wire ?s4 @ [Sent ?k (Leave (roomCode s) (name s)), CloseStarted ?k]"
    "connectionStatus s5 = Disconnected" "error s5 = JNull" by blast
  have r5: "renders s5"
    using s5(3,4) by (simp add: renders_def join_form_renders_def)
  have "run [JoinClick Returns, SockOpen ?k, SetCurrentMessage t, SendClick, LeaveClick] s
        = Some s5"
    using e1 e2 r1 s2 r2 s4 s5(1) r5 by (simp del: step.simps(7) add: connect_valid assms)
  then show "map_option wire
           (run [JoinClick Returns, SockOpen ?k, SetCurrentMessage t, SendClick, LeaveClick] s)
         = Some (wire s @
             [Created ?k, Sent ?k (Join (roomCode s) (trim (name s))),
              Sent ?k (ChatMessage (roomCode s) (name s) (trim t)),
              Sent ?k (Leave (roomCode s) (name s)), CloseStarted ?k])"
    using s5(2) by simp
qed

theorem join_frame_trims_name_later_frames_do_not_witness:
  "is_ws (hd (name demo_form)) \<and> trim (name demo_form) = ''al'' \<and>
   chat_view_renders demo_form \<and>
   map_option wire
     (run [JoinClick Returns, SockOpen 0, SetCurrentMessage ''hi'', SendClick, LeaveClick]
        demo_form)
   = Some [Created 0, Sent 0 (Join ''ABCDEF'' ''al''),
           Sent 0 (ChatMessage ''ABCDEF'' '' al'' ''hi''),
           Sent 0 (Leave ''ABCDEF'' '' al''), CloseStarted 0]"
proof -
  have w: "is_ws (hd (name demo_form)) \<or> is_ws (last (name demo_form))"
    by (simp add: demo_form_def is_ws_def)
  have n: "trim (name demo_form) \<noteq> []" by (simp add: demo_form_def trim_al)
  have c: "trim (roomCode demo_form) \<noteq> []" "length (roomCode demo_form) = 6"
    by (simp_all add: demo_form_def trim_code)
  have d: "connectionStatus demo_form \<noteq> Connected" by (simp add: demo_form_def initial_def)
  have t: "trim ''hi'' \<noteq> []" by (simp add: trim_def is_ws_def)
  have v: "chat_view_renders demo_form"
    by (simp add: demo_form_def initial_def chat_view_renders_def)
  have f: "sockets demo_form = []" "wire demo_form = []" "roomCode demo_form = ''ABCDEF''"
    "name demo_form = '' al''" "trim ''hi'' = ''hi''" "trim '' al'' = ''al''"
    by (simp_all add: demo_form_def initial_def trim_def is_ws_def)
  from join_frame_trims_name_later_frames_do_not [OF w n c d t v] v
  show ?thesis unfolding f by (simp add: is_ws_def)
qed

end
